theory Spec2Isabelle
  imports Complex_Main
begin

section \<open>The peer node of lib/peer.js\<close>

text \<open>
  A shallow embedding of \<^verbatim>\<open>src/lib/peer.js\<close>: the \<^verbatim>\<open>Peer\<close> object is a record
  that every operation takes and returns, the calls on sockets, the logger and the
  event emitter are recorded in a trace of effects in program order, and an operation
  ends by returning a value or by throwing.
\<close>

subsection \<open>JavaScript values\<close>

text \<open>
  The values that travel as payloads. A finite number is the rational it denotes
  (\<open>+0\<close> and \<open>-0\<close> are both \<open>JNum 0\<close>); an object is the list of its own enumerable
  properties in enumeration order; a buffer is its bytes, one \<open>char\<close> each.
\<close>

datatype js =
    JUndefined
  | JNull
  | JBool bool
  | JNum rat
  | JNaN
  | JInfinity bool
  | JStr string
  | JBuffer string
  | JArr "js list"
  | JObj "(string \<times> js) list"

text \<open>ToBoolean: what \<^verbatim>\<open>if (v)\<close> and \<^verbatim>\<open>!v\<close> test.\<close>

fun truthy :: "js \<Rightarrow> bool" where
  "truthy JUndefined = False"
| "truthy JNull = False"
| "truthy (JBool b) = b"
| "truthy (JNum r) = (r \<noteq> 0)"
| "truthy JNaN = False"
| "truthy (JInfinity _) = True"
| "truthy (JStr s) = (s \<noteq> [])"
| "truthy (JBuffer _) = True"
| "truthy (JArr _) = True"
| "truthy (JObj _) = True"

text \<open>\<^verbatim>\<open>typeof v === 'string'\<close>\<close>

fun is_string :: "js \<Rightarrow> bool" where
  "is_string (JStr _) = True"
| "is_string _ = False"

text \<open>
  A variable that holds \<^verbatim>\<open>false\<close>, \<^verbatim>\<open>null\<close> or an object (a decoded message, a
  reply); only the object is truthy.
\<close>

datatype 'a nullable = IsFalse | IsNull | Val 'a

fun truthy_n :: "'a nullable \<Rightarrow> bool" where
  "truthy_n (Val _) = True"
| "truthy_n _ = False"

datatype exn = TypeError | RangeError | SyntaxError | Error string

datatype 'a outcome = Throws exn | Returns 'a

text \<open>
  \<^verbatim>\<open>s.split(c)\<close> for a one-character separator: the parts between the separators,
  empty parts included, so a string with n separators has n + 1 parts.
\<close>

fun js_split :: "char \<Rightarrow> string \<Rightarrow> string list" where
  "js_split c [] = [[]]"
| "js_split c (x # xs) =
     (if x = c then [] # js_split c xs
      else (case js_split c xs of p # ps \<Rightarrow> (x # p) # ps | [] \<Rightarrow> [[x]]))"

text \<open>
  \<^verbatim>\<open>obj[k] = v\<close> on an object kept as its list of own properties: an existing key
  keeps its place, a new key goes to the end.
\<close>

fun assign :: "('k \<times> 'v) list \<Rightarrow> 'k \<Rightarrow> 'v \<Rightarrow> ('k \<times> 'v) list" where
  "assign [] k v = [(k, v)]"
| "assign ((k', v') # kvs) k v =
     (if k' = k then (k, v) # kvs else (k', v') # assign kvs k v)"

text \<open>The properties every plain object inherits from \<^verbatim>\<open>Object.prototype\<close>; all are truthy.\<close>

definition Object_prototype_keys :: "string list" where
  "Object_prototype_keys =
     [''constructor'', ''__defineGetter__'', ''__defineSetter__'', ''hasOwnProperty'',
      ''__lookupGetter__'', ''__lookupSetter__'', ''isPrototypeOf'',
      ''propertyIsEnumerable'', ''toString'', ''valueOf'', ''__proto__'',
      ''toLocaleString'']"

text \<open>\<^verbatim>\<open>!!obj[k]\<close> for a plain object: an own property first, then the prototype.\<close>

definition truthy_prop :: "(string \<times> js) list \<Rightarrow> string \<Rightarrow> bool" where
  "truthy_prop obj k =
     (case map_of obj k of Some v \<Rightarrow> truthy v | None \<Rightarrow> k \<in> set Object_prototype_keys)"

subsection \<open>Messages\<close>

definition P2P_IDENT_REQUEST :: nat where "P2P_IDENT_REQUEST = 0x01"
definition P2P_IDENT_RESPONSE :: nat where "P2P_IDENT_RESPONSE = 0x11"
definition P2P_ROOT :: nat where "P2P_ROOT = 0x00000000"
definition P2P_PING :: nat where "P2P_PING = 0x00000012"
definition P2P_PONG :: nat where "P2P_PONG = 0x00000013"
definition P2P_INSTRUCTION :: nat where "P2P_INSTRUCTION = 0x00000020"
definition P2P_STATE_COMMITTMENT :: nat where "P2P_STATE_COMMITTMENT = 0x00000032"
definition P2P_STATE_CHANGE :: nat where "P2P_STATE_CHANGE = 0x00000033"

text \<open>
  Modelled from the spec: \<^verbatim>\<open>lib/message.js\<close> is not part of the sources. The spec's
  Message has a numeric \<^verbatim>\<open>type\<close>, an optional \<^verbatim>\<open>id\<close> that is a correlation token, and
  a payload \<^verbatim>\<open>data\<close> that is text, binary or a JSON value. The id is therefore a
  primitive value, \<^verbatim>\<open>undefined\<close> when the message has none; the payload is any value.
\<close>

datatype prim =
    PUndefined
  | PNull
  | PBool bool
  | PNum rat
  | PNaN
  | PInfinity bool
  | PStr string

fun js_of :: "prim \<Rightarrow> js" where
  "js_of PUndefined = JUndefined"
| "js_of PNull = JNull"
| "js_of (PBool b) = JBool b"
| "js_of (PNum r) = JNum r"
| "js_of PNaN = JNaN"
| "js_of (PInfinity b) = JInfinity b"
| "js_of (PStr s) = JStr s"

text \<open>A decoded message, as the handlers read it: \<^verbatim>\<open>message.type\<close>, \<^verbatim>\<open>.id\<close>, \<^verbatim>\<open>.data\<close>.\<close>

record message =
  msg_type :: nat
  msg_id :: prim
  msg_data :: js

text \<open>
  Modelled from the spec: \<^verbatim>\<open>lib/message.js\<close> is not part of the sources. The spec's
  Codec contract is \<^verbatim>\<open>encode(type, data) -> bytes\<close>, so the message made by
  \<^verbatim>\<open>Message.fromVector([type, data])\<close> is kept as that pair: its type and what it carries.
\<close>

datatype out_message = FromVector nat js

fun out_type :: "out_message \<Rightarrow> nat" where
  "out_type (FromVector t d) = t"

fun out_data :: "out_message \<Rightarrow> js" where
  "out_data (FromVector t d) = d"

subsection \<open>Effects\<close>

type_synonym handle = nat

text \<open>
  The arguments of a log call; a template literal is \<open>T\<close> of its pieces.
\<close>

datatype log_arg =
    S string
  | V js
  | N nat
  | M out_message
  | X exn
  | T "log_arg list"

text \<open>
  One entry per call on a collaborator. \<open>Write h m\<close> is \<^verbatim>\<open>socket.write(m.asRaw())\<close> on
  the socket with identity \<open>h\<close>. The logger and the emitter (\<^verbatim>\<open>log\<close>, \<^verbatim>\<open>debug\<close> and
  \<^verbatim>\<open>emit\<close> of \<^verbatim>\<open>lib/vector.js\<close>) and the socket methods are outside the sources: a
  call on them is recorded and returns, \<^verbatim>\<open>socket.connect\<close> apart, which may throw.
\<close>

datatype effect =
    Log "log_arg list"
  | Debug "log_arg list"
  | Emit string js
  | NewSocket handle
  | OnError handle string
  | OnData handle
  | OnEnd handle string
  | SocketConnect handle string string
  | Write handle out_message
  | Destroy handle
  | CreateServer handle
  | ServerListen handle nat string
  | ServerClose handle

fun is_write :: "effect \<Rightarrow> bool" where
  "is_write (Write _ _) = True"
| "is_write _ = False"

fun is_emit :: "effect \<Rightarrow> bool" where
  "is_emit (Emit _ _) = True"
| "is_emit _ = False"

fun is_debug :: "effect \<Rightarrow> bool" where
  "is_debug (Debug _) = True"
| "is_debug _ = False"

fun is_new_socket :: "effect \<Rightarrow> bool" where
  "is_new_socket (NewSocket _) = True"
| "is_new_socket _ = False"

subsection \<open>The collaborators outside the sources\<close>

text \<open>
  What the file calls and does not define: the codec's decoder (\<^verbatim>\<open>Message.fromRaw\<close>,
  which throws or returns), \<^verbatim>\<open>JSON.parse\<close> and \<^verbatim>\<open>JSON.stringify\<close> on a value, the
  conversion of a value to a property key (a TypeError for a value that has no string
  conversion, such as an object whose own \<^verbatim>\<open>toString\<close> is not a function), the signature
  of the local key in hex (\<^verbatim>\<open>Buffer.from(key._sign(x)).toString('hex')\<close>), and whether
  \<^verbatim>\<open>socket.connect(port, host)\<close> throws.
\<close>

record env =
  fromRaw :: "string \<Rightarrow> message nullable outcome"
  JSON_parse :: "js \<Rightarrow> js outcome"
  JSON_stringify :: "js \<Rightarrow> js outcome"
  ToPropertyKey :: "js \<Rightarrow> string outcome"
  key_sign_hex :: "string \<Rightarrow> string outcome"
  socket_connect :: "string \<Rightarrow> string \<Rightarrow> exn option"

subsection \<open>The Peer\<close>

record config =
  cfg_address :: string
  cfg_port :: nat
  cfg_debug :: bool

text \<open>
  The fields of the constructor, \<^verbatim>\<open>server\<close> (undefined until \<^verbatim>\<open>listen\<close>) and
  \<^verbatim>\<open>state\<close>. A socket or server object is its identity; \<open>next_handle\<close> is the identity
  the next \<^verbatim>\<open>new net.Socket()\<close> or \<^verbatim>\<open>net.createServer\<close> gets. The tables are objects:
  lists of own properties in insertion order.
\<close>

record peer =
  config :: config
  peer_id :: string
  address :: string
  port :: nat
  server :: "handle option"
  connections :: "(string \<times> handle) list"
  peers :: "(string \<times> js) list"
  clock :: nat
  stack :: "js list"
  known :: "(string \<times> js) list"
  state :: js
  next_handle :: handle

text \<open>
  The constructor: \<open>cfg\<close> is the configuration after the defaults
  (\<^verbatim>\<open>0.0.0.0\<close>, \<^verbatim>\<open>7777\<close>) are merged in, \<open>ident\<close> the SHA-256 of the public key in hex.
  The stream, the key and \<^verbatim>\<open>init\<close> of \<^verbatim>\<open>Vector\<close> are outside the sources and have no
  field here.
\<close>

definition Peer :: "config \<Rightarrow> string \<Rightarrow> peer" where
  "Peer cfg ident =
     \<lparr> config = cfg, peer_id = ident, address = cfg_address cfg, port = cfg_port cfg,
       server = None, connections = [], peers = [], clock = 0, stack = [], known = [],
       state = JUndefined, next_handle = 0 \<rparr>"

definition default_config :: config where
  "default_config = \<lparr> cfg_address = ''0.0.0.0'', cfg_port = 7777, cfg_debug = False \<rparr>"

subsection \<open>parseMessage\<close>

text \<open>
  \<^verbatim>\<open>_parseMessage\<close>: \<^verbatim>\<open>false\<close> without data; otherwise what the decoder returns, or
  \<^verbatim>\<open>null\<close> and a debug line when it throws.
\<close>

definition parseMessage :: "env \<Rightarrow> string option \<Rightarrow> effect list \<times> message nullable" where
  "parseMessage env data =
     (case data of
        None \<Rightarrow> ([], IsFalse)
      | Some d \<Rightarrow>
          (case fromRaw env d of
             Throws E \<Rightarrow> ([Debug [S ''[PEER]'', S ''error parsing message:'', X E]], IsNull)
           | Returns message \<Rightarrow> ([], message)))"

subsection \<open>handleMessage\<close>

text \<open>
  \<^verbatim>\<open>_handleMessage\<close>. The \<^verbatim>\<open>switch\<close> compares \<^verbatim>\<open>message.type\<close> with each case in
  turn and takes \<^verbatim>\<open>default\<close> when none matches. \<^verbatim>\<open>message.data.split\<close> throws a
  TypeError on anything that is not a string, and \<^verbatim>\<open>self.peers[message.data]\<close> throws
  when the payload has no conversion to a property key. The template literals
  interpolate a number, a string, \<^verbatim>\<open>undefined\<close> or the primitive id, which always
  convert.
\<close>

definition handleMessage ::
  "env \<Rightarrow> peer \<Rightarrow> message nullable \<Rightarrow> peer \<times> effect list \<times> out_message nullable outcome" where
  \<open>handleMessage env self msg =
     (case msg of
        IsFalse \<Rightarrow> (self, [], Returns IsFalse)
      | IsNull \<Rightarrow> (self, [], Returns IsFalse)
      | Val message \<Rightarrow>
          if msg_type message = P2P_IDENT_REQUEST then
            (self, [], Returns (Val (FromVector P2P_IDENT_RESPONSE (JStr (peer_id self)))))
          else if msg_type message = P2P_IDENT_RESPONSE then
            (case ToPropertyKey env (msg_data message) of
               Throws E \<Rightarrow> (self, [], Throws E)
             | Returns k \<Rightarrow>
                 if \<not> truthy_prop (peers self) k then
                   (let p = JObj [(''id'', msg_data message)] in
                    (self\<lparr>peers := assign (peers self) k p\<rparr>, [Emit ''peer'' p],
                     Returns IsNull))
                 else (self, [], Returns IsNull))
          else if msg_type message = P2P_STATE_CHANGE then
            (let l = Log [S ''type was STATE_CHANGE, change is:'', V (msg_data message)] in
             case JSON_parse env (msg_data message) of
               Throws E \<Rightarrow>
                 (self, [l, Debug [S ''Could not parse change:'', V (msg_data message)]],
                  Returns IsFalse)
             | Returns changes \<Rightarrow>
                 (self, l # (if truthy changes then [Emit ''changes'' changes] else []),
                  Returns IsNull))
          else if msg_type message = P2P_ROOT then
            (let response = FromVector P2P_STATE_COMMITTMENT (state self) in
             (self,
              [Log [S ''type was ROOT, sending state root:'', M response],
               Log [S ''type was ROOT, state was:'', V (state self)]],
              Returns (Val response)))
          else if msg_type message = P2P_PING then
            (let response = FromVector P2P_PONG (js_of (msg_id message)) in
             (self,
              [Log [T [S ''type was PING ('', V (js_of (msg_id message)),
                       S ''), sending PONG:''],
                    M response]],
              Returns (Val response)))
          else if msg_type message = P2P_INSTRUCTION then
            (case msg_data message of
               JStr s \<Rightarrow>
                 (let stk = js_split CHR '' '' s in
                  if 1 < length stk \<and> stk ! 1 = ''SIGN'' then
                    (case key_sign_hex env (stk ! 0) of
                       Throws E \<Rightarrow> (self, [], Throws E)
                     | Returns hex \<Rightarrow>
                         (let script = hex @ '' '' @ ''CHECKSIG'' in
                          (self, [], Returns (Val (FromVector P2P_INSTRUCTION (JStr script))))))
                  else
                    (self,
                     [Log [S ''[PEER]'',
                           T [S ''unhandled instruction "'',
                              V (if 1 < length stk then JStr (stk ! 1) else JUndefined),
                              S ''"'']]],
                     Returns IsNull))
             | _ \<Rightarrow> (self, [], Throws TypeError))
          else
            (self,
             [Log [S ''[PEER]'', T [S ''unhandled message type "'', N (msg_type message), S ''"'']]],
             Returns IsNull))\<close>

subsection \<open>The data handler\<close>

text \<open>
  The handler that \<^verbatim>\<open>_connect\<close> and \<^verbatim>\<open>_handleConnection\<close> both install for
  \<^verbatim>\<open>'data'\<close>; \<open>this\<close> is the socket the data arrived on. An exception of
  \<^verbatim>\<open>_handleMessage\<close> leaves the handler before \<^verbatim>\<open>destroy\<close> and \<^verbatim>\<open>write\<close>.
\<close>

definition onData ::
  "env \<Rightarrow> peer \<Rightarrow> handle \<Rightarrow> string option \<Rightarrow> peer \<times> effect list \<times> unit outcome" where
  "onData env self this data =
     (case parseMessage env data of (e1, message) \<Rightarrow>
       (case handleMessage env self message of
          (self', e2, Throws E) \<Rightarrow> (self', e1 @ e2, Throws E)
        | (self', e2, Returns response) \<Rightarrow>
            (self',
             e1 @ e2
             @ (if \<not> truthy_n message then [Destroy this] else [])
             @ (case response of Val r \<Rightarrow> [Write this r] | _ \<Rightarrow> []),
             Returns ())))"

subsection \<open>connect\<close>

text \<open>
  What \<^verbatim>\<open>_connect\<close> returns: the value of the \<^verbatim>\<open>self.debug\<close> call, or the value of
  \<^verbatim>\<open>self.connections[address]\<close> (\<open>None\<close> when there is no such property).
\<close>

datatype connect_ret = RetDebug | RetEntry "handle option"

definition connect :: "env \<Rightarrow> peer \<Rightarrow> string \<Rightarrow> peer \<times> effect list \<times> connect_ret" where
  "connect env self addr =
     (let parts = js_split CHR '':'' addr;
          known_keys = map fst (connections self)
      in if length parts \<noteq> 2 then
           (self, [Debug [S ''Invalid address:'', V (JStr addr)]], RetDebug)
         else if addr \<in> set known_keys then
           (self, [], RetEntry (map_of (connections self) addr))
         else
           (let h = next_handle self;
                self1 = self\<lparr>connections := assign (connections self) addr h,
                             next_handle := Suc h\<rparr>;
                e1 = [NewSocket h, OnError h addr, OnData h];
                e2 = (case socket_connect env (parts ! 1) (parts ! 0) of
                        None \<Rightarrow> [SocketConnect h (parts ! 1) (parts ! 0)]
                      | Some E \<Rightarrow> [Log [S ''[PEER]'', S ''failed to connect:'', X E]])
            in (self1, e1 @ e2, RetEntry (map_of (connections self1) addr))))"

text \<open>
  The handler for \<^verbatim>\<open>'error'\<close> on a dialed socket (the dash of the source's message
  is written \<open>-\<close>).
\<close>

definition onError :: "peer \<Rightarrow> string \<Rightarrow> exn \<Rightarrow> peer \<times> effect list" where
  "onError self addr err =
     (self,
      [Debug [S ''[PEER]'', T [S ''could not connect to peer '', S addr, S '' - Reason:''],
              X err]])"

text \<open>
  The callback of \<^verbatim>\<open>connect\<close>, run when the socket is connected; it reads the table
  again for the socket to write to.
\<close>

definition onConnect :: "peer \<Rightarrow> string \<Rightarrow> peer \<times> effect list \<times> unit outcome" where
  "onConnect self addr =
     (let e = [Emit ''connection''
                 (JObj [(''address'', JStr addr), (''status'', JStr ''handshake''),
                        (''initiator'', JBool True)]),
               Log [T [S ''connection to '', S addr, S '' established!'']]];
          message = FromVector P2P_IDENT_REQUEST (JStr (peer_id self))
      in case map_of (connections self) addr of
           None \<Rightarrow> (self, e, Throws TypeError)
         | Some h \<Rightarrow> (self, e @ [Write h message], Returns ()))"

subsection \<open>handleConnection\<close>

definition digit_char :: "nat \<Rightarrow> char" where
  "digit_char d = ''0123456789'' ! d"

text \<open>A port number as \<^verbatim>\<open>join\<close> prints it.\<close>

fun string_of_nat :: "nat \<Rightarrow> string" where
  "string_of_nat n =
     (if n < 10 then [digit_char n]
      else string_of_nat (n div 10) @ [digit_char (n mod 10)])"

text \<open>
  \<^verbatim>\<open>_handleConnection\<close> for the accepted socket \<open>socket\<close>. The runtime made the socket,
  so its identity is no longer free for a later \<^verbatim>\<open>new net.Socket()\<close>.
\<close>

definition handleConnection :: "peer \<Rightarrow> handle \<Rightarrow> string \<Rightarrow> nat \<Rightarrow> peer \<times> effect list" where
  "handleConnection self socket remoteAddress remotePort =
     (let addr = remoteAddress @ '':'' @ string_of_nat remotePort in
      (self\<lparr>connections := assign (connections self) addr socket,
            next_handle := max (next_handle self) (Suc socket)\<rparr>,
       [Log [S ''incoming connection:'', S addr],
        Emit ''connection''
          (JObj [(''address'', JStr addr), (''status'', JStr ''connected''),
                 (''initiator'', JBool False)]),
        OnEnd socket addr,
        OnData socket]))"

text \<open>The handler for \<^verbatim>\<open>'end'\<close> on an accepted socket.\<close>

definition terminate :: "peer \<Rightarrow> string \<Rightarrow> peer \<times> effect list" where
  "terminate self addr =
     (self, [Log [S ''connection ended:'', S addr], Emit ''part'' (JStr addr)])"

subsection \<open>broadcast\<close>

text \<open>
  The two fields of a socket that \<^verbatim>\<open>broadcast\<close> reads, \<^verbatim>\<open>connecting\<close> and
  \<^verbatim>\<open>_hadError\<close>. The runtime sets and clears them; when it does so is outside the
  sources, so their values at the call are an input.
\<close>

record socket =
  connecting :: bool
  hadError :: bool

text \<open>The \<^verbatim>\<open>for ... in\<close> loop over the table, in enumeration order.\<close>

fun broadcast_loop :: "(handle \<Rightarrow> socket) \<Rightarrow> js \<Rightarrow> (string \<times> handle) list \<Rightarrow> effect list" where
  "broadcast_loop sockets message [] = []"
| "broadcast_loop sockets message ((i, conn) # rest) =
     (if \<not> connecting (sockets conn) \<and> \<not> hadError (sockets conn) then
        (let msg = FromVector P2P_STATE_CHANGE message in
         Write conn msg # broadcast_loop sockets message rest)
      else broadcast_loop sockets message rest)"

definition broadcast ::
  "env \<Rightarrow> (handle \<Rightarrow> socket) \<Rightarrow> peer \<Rightarrow> js \<Rightarrow> peer \<times> effect list \<times> unit outcome" where
  "broadcast env sockets self message =
     (if \<not> is_string message then
        (case JSON_stringify env message of
           Throws E \<Rightarrow> (self, [], Throws E)
         | Returns message' \<Rightarrow>
             (self, broadcast_loop sockets message' (connections self), Returns ()))
      else (self, broadcast_loop sockets message (connections self), Returns ()))"

subsection \<open>listen, start, stop\<close>

definition listen :: "peer \<Rightarrow> peer \<times> effect list \<times> unit outcome" where
  "listen self =
     (let h = next_handle self in
      (self\<lparr>server := Some h, next_handle := Suc h\<rparr>,
       [CreateServer h, ServerListen h (cfg_port (config self)) (cfg_address (config self))],
       Returns ()))"

text \<open>The callback of \<^verbatim>\<open>server.listen\<close>.\<close>

definition onListening :: "peer \<Rightarrow> peer \<times> effect list" where
  "onListening self =
     (self,
      (if cfg_debug (config self) then
         [Log [S ''[PEER]'',
               T [S (peer_id self), S '' now listening on tcp://'', S (address self), S '':'',
                  N (port self)]]]
       else [])
      @ [Emit ''ready'' JUndefined])"

definition start :: "peer \<Rightarrow> peer \<times> effect list \<times> unit outcome" where
  "start self = (if server self = None then listen self else (self, [], Returns ()))"

text \<open>\<^verbatim>\<open>this.server.close()\<close>: a TypeError when \<^verbatim>\<open>this.server\<close> is undefined.\<close>

definition stop :: "peer \<Rightarrow> peer \<times> effect list \<times> unit outcome" where
  "stop self =
     (case server self of
        None \<Rightarrow> (self, [], Throws TypeError)
      | Some h \<Rightarrow> (self, [ServerClose h], Returns ()))"

subsection \<open>A concrete set of collaborators\<close>

text \<open>
  Stand-ins for the collaborators, for running the operations on concrete inputs. The
  decoder reads the first byte as the type and the rest as text and throws on empty
  input; \<^verbatim>\<open>JSON.parse\<close> is given on three texts (\<^verbatim>\<open>null\<close>, one object, and anything
  else is taken as not JSON); the key conversion is given on strings, \<^verbatim>\<open>undefined\<close>,
  \<^verbatim>\<open>null\<close>, booleans and plain objects, and refuses the other values;
  \<^verbatim>\<open>socket.connect\<close> throws on an empty port.
\<close>

definition sample_fromRaw :: "string \<Rightarrow> message nullable outcome" where
  "sample_fromRaw bs =
     (case bs of
        [] \<Rightarrow> Throws (Error ''input too short'')
      | t # rest \<Rightarrow>
          Returns (Val \<lparr> msg_type = of_char t, msg_id = PStr ''c0ffee'',
                         msg_data = JStr rest \<rparr>))"

definition sample_parse :: "js \<Rightarrow> js outcome" where
  \<open>sample_parse v =
     (if v = JStr ''null'' then Returns JNull
      else if v = JStr ''{"path":"/a","value":1}'' then
        Returns (JObj [(''path'', JStr ''/a''), (''value'', JNum 1)])
      else Throws SyntaxError)\<close>

definition sample_stringify :: "js \<Rightarrow> js outcome" where
  "sample_stringify v =
     (if v = JNull then Returns (JStr ''null'')
      else if v = JUndefined then Returns JUndefined
      else Throws TypeError)"

definition sample_key :: "js \<Rightarrow> string outcome" where
  "sample_key v =
     (case v of
        JStr s \<Rightarrow> Returns s
      | JUndefined \<Rightarrow> Returns ''undefined''
      | JNull \<Rightarrow> Returns ''null''
      | JBool b \<Rightarrow> Returns (if b then ''true'' else ''false'')
      | JObj ps \<Rightarrow>
          (case map_of ps ''toString'' of
             None \<Rightarrow> Returns ''[object Object]''
           | Some _ \<Rightarrow> Throws TypeError)
      | _ \<Rightarrow> Throws (Error ''not given''))"

definition sample_env :: env where
  "sample_env =
     \<lparr> fromRaw = sample_fromRaw,
       JSON_parse = sample_parse,
       JSON_stringify = sample_stringify,
       ToPropertyKey = sample_key,
       key_sign_hex = (\<lambda>x. Returns ''3045''),
       socket_connect = (\<lambda>p h. if p = [] then Some RangeError else None) \<rparr>"

text \<open>Socket states for \<^verbatim>\<open>broadcast\<close>: every socket has \<^verbatim>\<open>connecting\<close> set.\<close>

definition all_connecting :: "handle \<Rightarrow> socket" where
  "all_connecting h = \<lparr> connecting = True, hadError = False \<rparr>"

definition sample_peer :: peer where
  "sample_peer = Peer default_config ''5feceb66ffc86f38''"

text \<open>A peer that accepted one connection and then dialed another.\<close>

definition two_peer :: peer where
  "two_peer =
     fst (connect sample_env (fst (handleConnection sample_peer 0 ''10.0.0.2'' 40000))
            ''10.0.0.1:7777'')"

text \<open>
  The accepted socket has both fields unset; the dialed one (identity 1) has
  \<^verbatim>\<open>connecting\<close> set.
\<close>

definition dialing_only :: "handle \<Rightarrow> socket" where
  "dialing_only h = \<lparr> connecting = (h = 1), hadError = False \<rparr>"

section \<open>Properties\<close>

lemmas P2P_defs =
  P2P_IDENT_REQUEST_def P2P_IDENT_RESPONSE_def P2P_ROOT_def P2P_PING_def P2P_PONG_def
  P2P_INSTRUCTION_def P2P_STATE_COMMITTMENT_def P2P_STATE_CHANGE_def

subsection \<open>Tables and splitting\<close>

lemma map_of_assign_upd: "map_of (assign kvs k v) = (map_of kvs)(k \<mapsto> v)"
  by (induction kvs) auto

lemma keys_assign: "fst ` set (assign kvs k v) = insert k (fst ` set kvs)"
proof -
  have "dom (map_of (assign kvs k v)) = insert k (dom (map_of kvs))"
    by (simp add: map_of_assign_upd)
  then show ?thesis by (simp add: dom_map_of_conv_image_fst)
qed

lemma length_assign: "length (assign kvs k v) \<le> Suc (length kvs)"
  by (induction kvs) auto

text \<open>The number of parts is one more than the number of separators.\<close>

lemma length_js_split: "length (js_split c s) = Suc (count_list s c)"
  by (induction s) (auto split: list.splits)

text \<open>The sample states, evaluated once.\<close>

lemma string_of_nat_5000: "string_of_nat 5000 = ''5000''"
  by (simp add: digit_char_def)

lemma string_of_nat_40000: "string_of_nat 40000 = ''40000''"
  by (simp add: digit_char_def)

lemma accept_ipv6:
  "fst (handleConnection sample_peer 0 ''::1'' 5000)
     = sample_peer\<lparr>connections := [(''::1:5000'', 0)], next_handle := 1\<rparr>"
  by (simp add: handleConnection_def string_of_nat_5000 sample_peer_def Peer_def Let_def
        del: string_of_nat.simps)

lemma connections_two_peer:
  "connections two_peer = [(''10.0.0.2:40000'', 0), (''10.0.0.1:7777'', 1)]"
  by (simp add: two_peer_def handleConnection_def connect_def string_of_nat_40000
        sample_peer_def Peer_def Let_def del: string_of_nat.simps)

subsection \<open>Undecodable input\<close>

lemma handleMessage_falsy:
  "\<not> truthy_n msg \<Longrightarrow> handleMessage env self msg = (self, [], Returns IsFalse)"
  by (cases msg) (simp_all add: handleMessage_def)

lemma onData_no_data: "onData env self this None = (self, [Destroy this], Returns ())"
  by (simp add: onData_def parseMessage_def handleMessage_falsy)

text \<open>
  Claim C1. When the decoder does not yield a message for the bytes of a data event
  (it throws, or returns a falsy value), the handler installed on dialed and accepted
  sockets alike leaves the Peer as it was, returns normally, and apart from debug lines
  does exactly one thing: it destroys the socket. Nothing is written and nothing is
  emitted; \<^verbatim>\<open>_handleMessage\<close> is entered with the falsy value and returns \<^verbatim>\<open>false\<close>
  at its first line, before the \<^verbatim>\<open>switch\<close>.
\<close>

theorem undecodable_input_destroys:
  assumes "\<forall>m. fromRaw env d \<noteq> Returns (Val m)"
  shows "fst (onData env self this (Some d)) = self
       \<and> snd (snd (onData env self this (Some d))) = Returns ()
       \<and> filter (\<lambda>e. \<not> is_debug e) (fst (snd (onData env self this (Some d)))) = [Destroy this]
       \<and> handleMessage env self (snd (parseMessage env (Some d))) = (self, [], Returns IsFalse)"
proof (cases "fromRaw env d")
  case (Throws E)
  then show ?thesis
    by (simp add: onData_def parseMessage_def handleMessage_falsy)
next
  case (Returns r)
  with assms have "\<not> truthy_n r" by (cases r) auto
  with Returns show ?thesis
    by (simp add: onData_def parseMessage_def handleMessage_falsy)
qed

text \<open>Witness for C1: the sample decoder throws on the empty buffer.\<close>

theorem undecodable_input_destroys_witness:
  "(\<forall>m. fromRaw sample_env [] \<noteq> Returns (Val m))
   \<and> onData sample_env sample_peer 3 (Some [])
       = (sample_peer,
          [Debug [S ''[PEER]'', S ''error parsing message:'', X (Error ''input too short'')],
           Destroy 3],
          Returns ())"
proof -
  have h: "\<forall>m. fromRaw sample_env [] \<noteq> Returns (Val m)"
    by (simp add: sample_env_def sample_fromRaw_def)
  from undecodable_input_destroys [OF h, of sample_peer 3] h show ?thesis
    by (simp add: onData_def parseMessage_def handleMessage_falsy sample_env_def sample_fromRaw_def)
qed

subsection \<open>Dialing\<close>

lemma connect_known:
  assumes "length (js_split CHR '':'' addr) = 2" and "map_of (connections self) addr = Some h"
  shows "connect env self addr = (self, [], RetEntry (Some h))"
proof -
  from assms(2) have "addr \<in> fst ` set (connections self)"
    by (metis domI dom_map_of_conv_image_fst)
  with assms show ?thesis by (simp add: connect_def Let_def)
qed

lemma connect_new:
  assumes "length (js_split CHR '':'' addr) = 2" and "addr \<notin> fst ` set (connections self)"
  shows "map_of (connections (fst (connect env self addr))) addr = Some (next_handle self)
       \<and> snd (snd (connect env self addr)) = RetEntry (Some (next_handle self))"
  using assms by (simp add: connect_def Let_def map_of_assign_upd)

text \<open>A key of the table never leads to a new socket or a change of the Peer.\<close>

lemma connect_present_frame:
  assumes "addr \<in> fst ` set (connections self)"
  shows "fst (connect env self addr) = self
       \<and> filter is_new_socket (fst (snd (connect env self addr))) = []"
  using assms by (simp add: connect_def Let_def)

text \<open>
  Counterexample for C2. A connection accepted from the IPv6 host \<^verbatim>\<open>::1\<close>, port 5000,
  is stored under the key \<^verbatim>\<open>::1:5000\<close>. Dialing that key splits it into four parts, so
  the call returns what \<^verbatim>\<open>self.debug\<close> returns, not the entry.
\<close>

theorem connect_known_counterexample:
  "map_of (connections (fst (handleConnection sample_peer 0 ''::1'' 5000))) ''::1:5000'' = Some 0
   \<and> snd (snd (connect sample_env (fst (handleConnection sample_peer 0 ''::1'' 5000)) ''::1:5000''))
       = RetDebug"
  by (simp add: accept_ipv6 connect_def Let_def)

text \<open>
  Claim C2, amended. For every address that is already a key of the connection table,
  \<^verbatim>\<open>_connect\<close> makes no socket and leaves the Peer, its tables included, unchanged;
  when the address splits on \<^verbatim>\<open>:\<close> into exactly two parts, the call returns the
  existing entry. Dialing an address of exactly two parts twice in a row returns the
  same handle the second time as the first, the second call having no effect.
\<close>

theorem connect_idempotent:
  "(addr \<in> fst ` set (connections self) \<longrightarrow>
      fst (connect env self addr) = self
    \<and> filter is_new_socket (fst (snd (connect env self addr))) = []
    \<and> (length (js_split CHR '':'' addr) = 2 \<longrightarrow>
         (\<exists>h. map_of (connections self) addr = Some h
              \<and> connect env self addr = (self, [], RetEntry (Some h)))))
   \<and> (length (js_split CHR '':'' addr) = 2 \<longrightarrow>
        connect env (fst (connect env self addr)) addr
          = (fst (connect env self addr), [], snd (snd (connect env self addr))))"
proof -
  have entry: "\<exists>h. map_of (connections self) addr = Some h
                  \<and> connect env self addr = (self, [], RetEntry (Some h))"
    if k: "addr \<in> fst ` set (connections self)" and two: "length (js_split CHR '':'' addr) = 2"
  proof -
    from k obtain h where h: "map_of (connections self) addr = Some h"
      by (metis domD dom_map_of_conv_image_fst)
    from connect_known [OF two h] h show ?thesis by simp
  qed
  have again: "connect env (fst (connect env self addr)) addr
                 = (fst (connect env self addr), [], snd (snd (connect env self addr)))"
    if two: "length (js_split CHR '':'' addr) = 2"
  proof (cases "addr \<in> fst ` set (connections self)")
    case True
    from entry [OF True two] show ?thesis by auto
  next
    case False
    from connect_new [OF two False, of env]
    have "connect env (fst (connect env self addr)) addr
            = (fst (connect env self addr), [], RetEntry (Some (next_handle self)))"
      by (intro connect_known [OF two]) simp
    with connect_new [OF two False, of env] show ?thesis by simp
  qed
  show ?thesis
  proof (intro conjI impI)
    assume k: "addr \<in> fst ` set (connections self)"
    from connect_present_frame [OF k] show "fst (connect env self addr) = self" ..
    from connect_present_frame [OF k]
    show "filter is_new_socket (fst (snd (connect env self addr))) = []" ..
    assume two: "length (js_split CHR '':'' addr) = 2"
    from entry [OF k two]
    show "\<exists>h. map_of (connections self) addr = Some h
              \<and> connect env self addr = (self, [], RetEntry (Some h))" .
  next
    assume two: "length (js_split CHR '':'' addr) = 2"
    from again [OF two]
    show "connect env (fst (connect env self addr)) addr
            = (fst (connect env self addr), [], snd (snd (connect env self addr)))" .
  qed
qed

text \<open>Witness for C2: the second dial of \<^verbatim>\<open>10.0.0.1:7777\<close> returns the socket of the first.\<close>

theorem connect_idempotent_witness:
  "length (js_split CHR '':'' ''10.0.0.1:7777'') = 2
   \<and> ''10.0.0.1:7777'' \<in> fst ` set (connections two_peer)
   \<and> connect sample_env two_peer ''10.0.0.1:7777'' = (two_peer, [], RetEntry (Some 1))
   \<and> snd (snd (connect sample_env sample_peer ''10.0.0.1:7777'')) = RetEntry (Some 0)
   \<and> connect sample_env (fst (connect sample_env sample_peer ''10.0.0.1:7777'')) ''10.0.0.1:7777''
       = (fst (connect sample_env sample_peer ''10.0.0.1:7777''), [], RetEntry (Some 0))"
proof -
  have h: "length (js_split CHR '':'' ''10.0.0.1:7777'') = 2" by simp
  note c = connections_two_peer
  have k: "''10.0.0.1:7777'' \<in> fst ` set (connections two_peer)" by (simp add: c)
  from connect_idempotent [of "''10.0.0.1:7777''" two_peer sample_env] k h
  obtain h' where m: "map_of (connections two_peer) ''10.0.0.1:7777'' = Some h'"
    and e: "connect sample_env two_peer ''10.0.0.1:7777'' = (two_peer, [], RetEntry (Some h'))"
    by blast
  from m have "h' = 1" by (simp add: c)
  with e have first: "connect sample_env two_peer ''10.0.0.1:7777'' = (two_peer, [], RetEntry (Some 1))"
    by simp
  have r: "snd (snd (connect sample_env sample_peer ''10.0.0.1:7777'')) = RetEntry (Some 0)"
    by (simp add: connect_def Let_def sample_peer_def Peer_def)
  from connect_idempotent [of "''10.0.0.1:7777''" sample_peer sample_env] h
  have "connect sample_env (fst (connect sample_env sample_peer ''10.0.0.1:7777'')) ''10.0.0.1:7777''
          = (fst (connect sample_env sample_peer ''10.0.0.1:7777''), [],
             snd (snd (connect sample_env sample_peer ''10.0.0.1:7777'')))"
    by blast
  then have again:
    "connect sample_env (fst (connect sample_env sample_peer ''10.0.0.1:7777'')) ''10.0.0.1:7777''
       = (fst (connect sample_env sample_peer ''10.0.0.1:7777''), [], RetEntry (Some 0))"
    by (simp only: r)
  from h k first r again show ?thesis by (intro conjI)
qed

text \<open>
  Counterexample for C8. \<^verbatim>\<open>localhost:\<close> splits into two parts, the second empty. The
  length test passes, so a socket is made and stored in the table before
  \<^verbatim>\<open>connect\<close> refuses the empty port.
\<close>

theorem connect_empty_port_counterexample:
  "js_split CHR '':'' ''localhost:'' = [''localhost'', []]
   \<and> connect sample_env sample_peer ''localhost:''
       = (sample_peer\<lparr>connections := [(''localhost:'', 0)], next_handle := 1\<rparr>,
          [NewSocket 0, OnError 0 ''localhost:'', OnData 0,
           Log [S ''[PEER]'', S ''failed to connect:'', X RangeError]],
          RetEntry (Some 0))"
  by (simp add: connect_def Let_def sample_peer_def Peer_def sample_env_def)

text \<open>
  Claim C8, amended. For every address that does not split on \<^verbatim>\<open>:\<close> into exactly two
  parts (empty or not), \<^verbatim>\<open>_connect\<close> logs the invalid-address diagnostic and returns with
  no other effect: the Peer, its tables included, is unchanged and no socket is made.
\<close>

theorem connect_invalid_address:
  assumes "length (js_split CHR '':'' addr) \<noteq> 2"
  shows "connect env self addr
           = (self, [Debug [S ''Invalid address:'', V (JStr addr)]], RetDebug)"
  using assms by (simp add: connect_def Let_def)

text \<open>Witness for C8: an address of three parts.\<close>

theorem connect_invalid_address_witness:
  "length (js_split CHR '':'' ''10.0.0.1:7777:tcp'') \<noteq> 2
   \<and> connect sample_env sample_peer ''10.0.0.1:7777:tcp''
       = (sample_peer, [Debug [S ''Invalid address:'', V (JStr ''10.0.0.1:7777:tcp'')]], RetDebug)"
proof -
  have h: "length (js_split CHR '':'' ''10.0.0.1:7777:tcp'') \<noteq> 2" by simp
  from connect_invalid_address [OF h, of sample_env sample_peer] h show ?thesis by simp
qed

subsection \<open>Dispatch\<close>

text \<open>
  Claim C3. A decoded PING with correlation id X gets exactly one reply: the message
  made from the vector \<^verbatim>\<open>[P2P_PONG, X]\<close>, of type PONG and carrying X itself. Dispatch
  logs, returns that reply and leaves the Peer unchanged, and the data handler writes
  the reply once, on the socket the PING came from, and does not destroy the socket.
\<close>

theorem ping_pong:
  assumes "msg_type m = P2P_PING"
  shows "handleMessage env self (Val m)
           = (self,
              [Log [T [S ''type was PING ('', V (js_of (msg_id m)), S ''), sending PONG:''],
                    M (FromVector P2P_PONG (js_of (msg_id m)))]],
              Returns (Val (FromVector P2P_PONG (js_of (msg_id m)))))
       \<and> out_type (FromVector P2P_PONG (js_of (msg_id m))) = P2P_PONG
       \<and> out_data (FromVector P2P_PONG (js_of (msg_id m))) = js_of (msg_id m)
       \<and> (\<forall>d this. fromRaw env d = Returns (Val m) \<longrightarrow>
             onData env self this (Some d)
               = (self,
                  [Log [T [S ''type was PING ('', V (js_of (msg_id m)),
                           S ''), sending PONG:''],
                        M (FromVector P2P_PONG (js_of (msg_id m)))],
                   Write this (FromVector P2P_PONG (js_of (msg_id m)))],
                  Returns ()))"
  using assms by (simp add: onData_def parseMessage_def handleMessage_def P2P_defs Let_def)

text \<open>Witness for C3: a PING frame (type byte 0x12) arriving on socket 7.\<close>

theorem ping_pong_witness:
  "onData sample_env sample_peer 7 (Some (CHR 0x12 # ''hi''))
     = (sample_peer,
        [Log [T [S ''type was PING ('', V (JStr ''c0ffee''), S ''), sending PONG:''],
              M (FromVector 0x13 (JStr ''c0ffee''))],
         Write 7 (FromVector 0x13 (JStr ''c0ffee''))],
        Returns ())"
  using ping_pong
    [of "\<lparr>msg_type = 0x12, msg_id = PStr ''c0ffee'', msg_data = JStr ''hi''\<rparr>"
        sample_env sample_peer]
  by (simp add: sample_env_def sample_fromRaw_def P2P_defs)

text \<open>
  Claim C4. A decoded IDENT_REQUEST, whatever it carries, gets exactly one reply: the
  IDENT_RESPONSE made from the vector \<^verbatim>\<open>[P2P_IDENT_RESPONSE, self.id]\<close>, whose payload is
  the local peer's id. Dispatch has no other effect, and the data handler writes the
  reply once.
\<close>

theorem ident_request_response:
  assumes "msg_type m = P2P_IDENT_REQUEST"
  shows "handleMessage env self (Val m)
           = (self, [], Returns (Val (FromVector P2P_IDENT_RESPONSE (JStr (peer_id self)))))
       \<and> (\<forall>d this. fromRaw env d = Returns (Val m) \<longrightarrow>
             onData env self this (Some d)
               = (self, [Write this (FromVector P2P_IDENT_RESPONSE (JStr (peer_id self)))],
                  Returns ()))"
  using assms by (simp add: onData_def parseMessage_def handleMessage_def P2P_defs)

text \<open>Witness for C4: the request carries another peer's id; the reply carries the local one.\<close>

theorem ident_request_response_witness:
  "onData sample_env sample_peer 4 (Some (CHR 0x01 # ''d4735e3a265e16ee''))
     = (sample_peer, [Write 4 (FromVector 0x11 (JStr ''5feceb66ffc86f38''))], Returns ())"
  using ident_request_response
    [of "\<lparr>msg_type = 1, msg_id = PStr ''c0ffee'', msg_data = JStr ''d4735e3a265e16ee''\<rparr>"
        sample_env sample_peer]
  by (simp add: sample_env_def sample_fromRaw_def sample_peer_def Peer_def P2P_defs)

text \<open>
  Counterexample for C5. The payload \<^verbatim>\<open>null\<close> parses as JSON, to \<^verbatim>\<open>null\<close>; the guard
  \<^verbatim>\<open>if (changes)\<close> then skips the \<^verbatim>\<open>emit\<close>, so no \<^verbatim>\<open>changes\<close> event is emitted.
\<close>

theorem state_change_null_counterexample:
  "JSON_parse sample_env (JStr ''null'') = Returns JNull
   \<and> filter is_emit (fst (snd (handleMessage sample_env sample_peer
        (Val \<lparr>msg_type = P2P_STATE_CHANGE, msg_id = PUndefined, msg_data = JStr ''null''\<rparr>)))) = []"
  by (simp add: handleMessage_def sample_env_def sample_parse_def P2P_defs)

text \<open>
  Claim C5, amended. For every STATE_CHANGE message whose payload parses as JSON to a
  truthy value (any value but \<^verbatim>\<open>null\<close>, \<^verbatim>\<open>false\<close>, \<^verbatim>\<open>0\<close> and the empty string),
  dispatch emits exactly one \<^verbatim>\<open>changes\<close> event carrying the parsed value and produces
  no reply; the data handler writes nothing and does not destroy the socket.
\<close>

theorem state_change_emits:
  assumes "msg_type m = P2P_STATE_CHANGE"
      and "JSON_parse env (msg_data m) = Returns v"
      and "truthy v"
  shows "handleMessage env self (Val m)
           = (self,
              [Log [S ''type was STATE_CHANGE, change is:'', V (msg_data m)],
               Emit ''changes'' v],
              Returns IsNull)
       \<and> (\<forall>d this. fromRaw env d = Returns (Val m) \<longrightarrow>
             onData env self this (Some d)
               = (self,
                  [Log [S ''type was STATE_CHANGE, change is:'', V (msg_data m)],
                   Emit ''changes'' v],
                  Returns ()))"
  using assms by (simp add: onData_def parseMessage_def handleMessage_def P2P_defs)

text \<open>Witness for C5: the object of the spec's example.\<close>

theorem state_change_emits_witness:
  \<open>onData sample_env sample_peer 5 (Some (CHR 0x33 # ''{"path":"/a","value":1}''))
     = (sample_peer,
        [Log [S ''type was STATE_CHANGE, change is:'', V (JStr ''{"path":"/a","value":1}'')],
         Emit ''changes'' (JObj [(''path'', JStr ''/a''), (''value'', JNum 1)])],
        Returns ())\<close>
  using state_change_emits
    [of \<open>\<lparr>msg_type = 0x33, msg_id = PStr ''c0ffee'', msg_data = JStr ''{"path":"/a","value":1}''\<rparr>\<close>
        sample_env \<open>JObj [(''path'', JStr ''/a''), (''value'', JNum 1)]\<close> sample_peer]
  by (simp add: sample_env_def sample_fromRaw_def sample_parse_def P2P_defs)

text \<open>A payload that parses to a falsy value: the log line only.\<close>

lemma state_change_falsy:
  assumes "msg_type m = P2P_STATE_CHANGE"
      and "JSON_parse env (msg_data m) = Returns v"
      and "\<not> truthy v"
  shows "handleMessage env self (Val m)
           = (self, [Log [S ''type was STATE_CHANGE, change is:'', V (msg_data m)]],
              Returns IsNull)"
  using assms by (simp add: handleMessage_def P2P_defs)

text \<open>
  Claim C6. For every STATE_CHANGE message whose payload \<^verbatim>\<open>JSON.parse\<close> rejects,
  dispatch logs, emits nothing and returns \<^verbatim>\<open>false\<close>; the data handler then writes no
  reply and does not destroy the socket, and the Peer is unchanged.
\<close>

theorem state_change_bad_json:
  assumes "msg_type m = P2P_STATE_CHANGE"
      and "JSON_parse env (msg_data m) = Throws E"
  shows "handleMessage env self (Val m)
           = (self,
              [Log [S ''type was STATE_CHANGE, change is:'', V (msg_data m)],
               Debug [S ''Could not parse change:'', V (msg_data m)]],
              Returns IsFalse)
       \<and> (\<forall>d this. fromRaw env d = Returns (Val m) \<longrightarrow>
             onData env self this (Some d)
               = (self,
                  [Log [S ''type was STATE_CHANGE, change is:'', V (msg_data m)],
                   Debug [S ''Could not parse change:'', V (msg_data m)]],
                  Returns ()))"
  using assms by (simp add: onData_def parseMessage_def handleMessage_def P2P_defs)

text \<open>Witness for C6: the payload \<^verbatim>\<open>not json\<close>.\<close>

theorem state_change_bad_json_witness:
  "onData sample_env sample_peer 6 (Some (CHR 0x33 # ''not json''))
     = (sample_peer,
        [Log [S ''type was STATE_CHANGE, change is:'', V (JStr ''not json'')],
         Debug [S ''Could not parse change:'', V (JStr ''not json'')]],
        Returns ())"
  using state_change_bad_json
    [of "\<lparr>msg_type = 0x33, msg_id = PStr ''c0ffee'', msg_data = JStr ''not json''\<rparr>"
        sample_env SyntaxError sample_peer]
  by (simp add: sample_env_def sample_fromRaw_def sample_parse_def P2P_defs)

text \<open>
  Claim C10. Whatever the message and however dispatch ends, \<^verbatim>\<open>_handleMessage\<close> leaves
  the connection table, the id, the address and the port as they were. Either the whole
  Peer is unchanged, or the message was an IDENT_RESPONSE and the only change is one
  assignment to the peers table, which grows by at most one entry.
\<close>

theorem handleMessage_frame:
  assumes "handleMessage env self msg = (self', effs, out)"
  shows "connections self' = connections self
       \<and> peer_id self' = peer_id self
       \<and> address self' = address self
       \<and> port self' = port self
       \<and> length (peers self') \<le> Suc (length (peers self))
       \<and> (self' = self
          \<or> (\<exists>m k. msg = Val m \<and> msg_type m = P2P_IDENT_RESPONSE
                \<and> ToPropertyKey env (msg_data m) = Returns k
                \<and> self' = self\<lparr>peers := assign (peers self) k
                                         (JObj [(''id'', msg_data m)])\<rparr>))"
proof (cases msg)
  case IsFalse
  with assms show ?thesis by (simp add: handleMessage_def)
next
  case IsNull
  with assms show ?thesis by (simp add: handleMessage_def)
next
  case (Val m)
  with assms show ?thesis
    by (auto simp: handleMessage_def Let_def length_assign
             split: if_splits outcome.splits js.splits)
qed

text \<open>
  A payload with no conversion to a property key: the lookup throws and nothing
  changes.
\<close>

lemma ident_response_key_throws:
  assumes "msg_type m = P2P_IDENT_RESPONSE" and "ToPropertyKey env (msg_data m) = Throws E"
  shows "handleMessage env self (Val m) = (self, [], Throws E)"
  using assms by (simp add: handleMessage_def P2P_defs)

text \<open>Witness for C10: an IDENT_RESPONSE from a peer not seen before adds its entry.\<close>

theorem handleMessage_frame_witness:
  "handleMessage sample_env sample_peer
     (Val \<lparr>msg_type = 0x11, msg_id = PUndefined, msg_data = JStr ''d4735e3a265e16ee''\<rparr>)
     = (sample_peer\<lparr>peers := [(''d4735e3a265e16ee'', JObj [(''id'', JStr ''d4735e3a265e16ee'')])]\<rparr>,
        [Emit ''peer'' (JObj [(''id'', JStr ''d4735e3a265e16ee'')])],
        Returns IsNull)
   \<and> connections (sample_peer\<lparr>peers := [(''d4735e3a265e16ee'', JObj [(''id'', JStr ''d4735e3a265e16ee'')])]\<rparr>)
       = connections sample_peer"
proof -
  have h: "handleMessage sample_env sample_peer
     (Val \<lparr>msg_type = 0x11, msg_id = PUndefined, msg_data = JStr ''d4735e3a265e16ee''\<rparr>)
     = (sample_peer\<lparr>peers := [(''d4735e3a265e16ee'', JObj [(''id'', JStr ''d4735e3a265e16ee'')])]\<rparr>,
        [Emit ''peer'' (JObj [(''id'', JStr ''d4735e3a265e16ee'')])],
        Returns IsNull)"
    by (simp add: handleMessage_def P2P_defs sample_env_def sample_key_def sample_peer_def
          Peer_def truthy_prop_def Object_prototype_keys_def Let_def)
  from handleMessage_frame [OF h] h show ?thesis by simp
qed

subsection \<open>Broadcast\<close>

lemma broadcast_loop_map:
  "broadcast_loop sockets s conns
     = map (\<lambda>h. Write h (FromVector P2P_STATE_CHANGE s))
         (filter (\<lambda>h. \<not> connecting (sockets h) \<and> \<not> hadError (sockets h)) (map snd conns))"
  by (induction conns) (auto simp: Let_def)

lemma broadcast_loop_members:
  "e \<in> set (broadcast_loop sockets s conns) \<Longrightarrow>
     \<exists>h \<in> snd ` set conns. e = Write h (FromVector P2P_STATE_CHANGE s)"
  by (induction conns) (auto split: if_splits)

lemma broadcast_loop_count:
  "distinct (map snd conns) \<Longrightarrow>
     count_list (broadcast_loop sockets s conns) (Write h (FromVector P2P_STATE_CHANGE s))
       = (if h \<in> snd ` set conns \<and> \<not> connecting (sockets h) \<and> \<not> hadError (sockets h)
          then 1 else 0)"
proof (induction conns)
  case Nil
  then show ?case by simp
next
  case (Cons c conns)
  obtain i conn where c: "c = (i, conn)" by (cases c)
  from Cons.prems c have fresh: "conn \<notin> snd ` set conns" and d: "distinct (map snd conns)"
    by auto
  from Cons.IH [OF d] fresh c show ?case
    by (auto simp: Let_def)
qed

text \<open>An exception of \<^verbatim>\<open>JSON.stringify\<close> leaves \<^verbatim>\<open>broadcast\<close> before the loop.\<close>

lemma broadcast_throws:
  assumes "\<not> is_string p" and "JSON_stringify env p = Throws E"
  shows "broadcast env sockets self p = (self, [], Throws E)"
  using assms by (simp add: broadcast_def)

text \<open>
  Counterexample for C7. Right after \<^verbatim>\<open>10.0.0.1:7777\<close> is dialed its socket is in the
  table with \<^verbatim>\<open>connecting\<close> set; a broadcast then writes no frame to it.
\<close>

theorem broadcast_connecting_counterexample:
  "connections (fst (connect sample_env sample_peer ''10.0.0.1:7777'')) = [(''10.0.0.1:7777'', 0)]
   \<and> connecting (all_connecting 0)
   \<and> fst (snd (broadcast sample_env all_connecting
                 (fst (connect sample_env sample_peer ''10.0.0.1:7777'')) (JStr ''hello''))) = []"
  by (simp add: broadcast_def connect_def Let_def sample_peer_def Peer_def all_connecting_def)

text \<open>
  Claim C7, amended. Let s be the payload itself when it is a string and the result of
  \<^verbatim>\<open>JSON.stringify\<close> otherwise (when that returns). Then \<^verbatim>\<open>broadcast\<close> leaves the Peer
  unchanged and writes, in table order, one STATE_CHANGE frame wrapping s for each
  entry of the table whose socket has neither its \<^verbatim>\<open>connecting\<close> field nor its
  \<^verbatim>\<open>_hadError\<close> field set at the call, and nothing else. So, the table holding each socket
  once, a socket gets exactly one frame when it is in the table with both fields unset,
  and none otherwise: not when one of the two fields is set, and not when it is not in
  the table at the call.
\<close>

theorem broadcast_writes:
  assumes "(if is_string p then Returns p else JSON_stringify env p) = Returns s"
  shows "fst (broadcast env sockets self p) = self
       \<and> snd (snd (broadcast env sockets self p)) = Returns ()
       \<and> fst (snd (broadcast env sockets self p))
           = map (\<lambda>h. Write h (FromVector P2P_STATE_CHANGE s))
               (filter (\<lambda>h. \<not> connecting (sockets h) \<and> \<not> hadError (sockets h))
                  (map snd (connections self)))
       \<and> (distinct (map snd (connections self)) \<longrightarrow>
            (\<forall>h. count_list (fst (snd (broadcast env sockets self p)))
                    (Write h (FromVector P2P_STATE_CHANGE s))
                  = (if h \<in> snd ` set (connections self)
                        \<and> \<not> connecting (sockets h) \<and> \<not> hadError (sockets h)
                     then 1 else 0)))"
proof -
  from assms have b: "broadcast env sockets self p
      = (self, broadcast_loop sockets s (connections self), Returns ())"
    by (auto simp: broadcast_def split: if_splits)
  have "count_list (broadcast_loop sockets s (connections self))
          (Write h (FromVector P2P_STATE_CHANGE s))
        = (if h \<in> snd ` set (connections self)
              \<and> \<not> connecting (sockets h) \<and> \<not> hadError (sockets h)
           then 1 else 0)"
    if "distinct (map snd (connections self))" for h
    using broadcast_loop_count [OF that, of sockets s h] .
  then show ?thesis
    unfolding b by (simp add: broadcast_loop_map [symmetric])
qed

text \<open>
  Witness for C7: of an accepted socket with both fields unset and a dialed socket whose
  \<^verbatim>\<open>connecting\<close> field is set, the first gets the frame and the second gets none.
\<close>

theorem broadcast_writes_witness:
  "connections two_peer = [(''10.0.0.2:40000'', 0), (''10.0.0.1:7777'', 1)]
   \<and> broadcast sample_env dialing_only two_peer JNull
       = (two_peer, [Write 0 (FromVector P2P_STATE_CHANGE (JStr ''null''))], Returns ())
   \<and> count_list (fst (snd (broadcast sample_env dialing_only two_peer JNull)))
        (Write 0 (FromVector P2P_STATE_CHANGE (JStr ''null''))) = 1
   \<and> count_list (fst (snd (broadcast sample_env dialing_only two_peer JNull)))
        (Write 1 (FromVector P2P_STATE_CHANGE (JStr ''null''))) = 0"
proof -
  note c = connections_two_peer
  have d: "distinct (map snd (connections two_peer))" by (simp add: c)
  have s: "(if is_string JNull then Returns JNull else JSON_stringify sample_env JNull)
             = Returns (JStr ''null'')"
    by (simp add: sample_env_def sample_stringify_def)
  have b: "broadcast sample_env dialing_only two_peer JNull
       = (two_peer, [Write 0 (FromVector P2P_STATE_CHANGE (JStr ''null''))], Returns ())"
    by (simp add: broadcast_def c dialing_only_def sample_env_def sample_stringify_def)
  from broadcast_writes [OF s, of dialing_only two_peer] d c b show ?thesis
    by (simp add: dialing_only_def)
qed

subsection \<open>Stopping\<close>

text \<open>
  Claim C9. The claim says that no operation lets an exception reach its caller.
  \<^verbatim>\<open>stop\<close> on a Peer that was never started does: \<^verbatim>\<open>this.server\<close> is undefined, and
  \<^verbatim>\<open>this.server.close()\<close> throws a TypeError. (\<^verbatim>\<open>start\<close> tests \<^verbatim>\<open>this.server\<close> first;
  \<^verbatim>\<open>stop\<close> does not.)
\<close>

theorem stop_before_start_throws:
  "stop (Peer cfg ident) = (Peer cfg ident, [], Throws TypeError)"
  by (simp add: stop_def Peer_def)

text \<open>Once started, the same Peer stops without an exception.\<close>

lemma stop_after_start:
  "stop (fst (start (Peer cfg ident)))
     = (fst (start (Peer cfg ident)), [ServerClose 0], Returns ())"
  by (simp add: stop_def start_def listen_def Peer_def)

end
